theory Spec2Isabelle
  imports Main
begin

section \<open>Python values and library functions used by the SIT handshake\<close>

text \<open>
  The development embeds \<^verbatim>\<open>src/validators/sit_handshake.py\<close>.

  A Python \<^verbatim>\<open>str\<close> is a \<open>string\<close>; a character is its code point (code points
  below 256). A \<^verbatim>\<open>bytes\<close> value is a \<open>string\<close> too, one character per byte.
  A \<^verbatim>\<open>Dict\<close> with string keys is a map: the handshake reads dictionaries only by
  key, merges them, and serialises them with \<^verbatim>\<open>sort_keys=True\<close>, so the insertion
  order is never observed.
\<close>

datatype json =
    JNull
  | JBool bool
  | JInt int
  | JStr string
  | JList "json list"
  | JDict "string \<Rightarrow> json option"

type_synonym dict = "string \<Rightarrow> json option"

text \<open>
  A \<^verbatim>\<open>datetime\<close>: the wall-clock reading in microseconds and the UTC offset of an
  aware value (\<open>None\<close> for a naive one). \<^verbatim>\<open>datetime.utcnow()\<close> is naive; every
  call of it is an argument of the operation that makes the call, of type \<open>int\<close>.
\<close>

datatype datetime = Datetime (wall: int) (tzinfo: "int option")

text \<open>
  The functions of the Python standard library that the module calls and whose code is
  not part of the repository are the fields of \<open>pylib\<close>:
  \<^item> \<open>sha256 m\<close> is \<^verbatim>\<open>hashlib.sha256(m).digest()\<close>;
  \<^item> \<open>json_dumps v\<close> is \<^verbatim>\<open>json.dumps(v, sort_keys=True, ensure_ascii=False)\<close>;
  \<^item> \<open>fromisoformat s\<close> is \<^verbatim>\<open>datetime.fromisoformat(s)\<close>, \<open>None\<close> when it raises
    \<^verbatim>\<open>ValueError\<close>;
  \<^item> \<open>isoformat t\<close> is \<^verbatim>\<open>d.isoformat()\<close> for the naive datetime \<open>d\<close> that reads \<open>t\<close>.
  Every theorem below holds for every such record.
\<close>

record pylib =
  sha256 :: "string \<Rightarrow> string"
  json_dumps :: "json \<Rightarrow> string"
  fromisoformat :: "string \<Rightarrow> datetime option"
  isoformat :: "int \<Rightarrow> string"

datatype py_exception = TypeError | KeyError | ValueError

text \<open>\<^verbatim>\<open>s.encode('utf-8')\<close> on code points below 256.\<close>

definition utf8_encode :: "string \<Rightarrow> string" where
  "utf8_encode s =
     concat (map (\<lambda>c. if (of_char c :: nat) < 128 then [c]
                        else [char_of (192 + (of_char c :: nat) div 64),
                              char_of (128 + (of_char c :: nat) mod 64)]) s)"

text \<open>\<^verbatim>\<open>s.replace('Z', '+00:00')\<close>.\<close>

definition replace_Z :: "string \<Rightarrow> string" where
  "replace_Z s = concat (map (\<lambda>c. if c = CHR ''Z'' then ''+00:00'' else [c]) s)"

text \<open>\<^verbatim>\<open>digest.hex()\<close>: two lower-case hexadecimal digits for each byte.\<close>

definition hex_digit :: "nat \<Rightarrow> char" where
  "hex_digit n = ''0123456789abcdef'' ! (n mod 16)"

definition hexdigest :: "string \<Rightarrow> string" where
  "hexdigest d =
     concat (map (\<lambda>c. [hex_digit ((of_char c :: nat) div 16), hex_digit (of_char c)]) d)"

text \<open>
  \<^verbatim>\<open>hmac.new(key, msg, hashlib.sha256).digest()\<close>, the construction of RFC 2104 with
  the 64-byte block of SHA-256: a key longer than the block is hashed first, the key is
  padded with zero bytes to the block, and the hash is applied twice, to the message
  after the key masked with \<^verbatim>\<open>0x36\<close> and to that digest after the key masked with
  \<^verbatim>\<open>0x5c\<close>.
\<close>

definition xor_byte :: "nat \<Rightarrow> char \<Rightarrow> char" where
  "xor_byte m c = char_of (xor (of_char c :: nat) m)"

definition hmac_new :: "pylib \<Rightarrow> string \<Rightarrow> string \<Rightarrow> string" where
  "hmac_new lib key msg =
     (let key1 = (if length key > 64 then sha256 lib key else key);
          key2 = key1 @ replicate (64 - length key1) (CHR 0x00);
          inner = sha256 lib (map (xor_byte 54) key2 @ msg)
      in sha256 lib (map (xor_byte 92) key2 @ inner))"

text \<open>
  \<^verbatim>\<open>hmac.compare_digest(a, b)\<close> on two \<^verbatim>\<open>str\<close> arguments: it raises
  \<^verbatim>\<open>TypeError\<close> when either holds a character outside ASCII, and compares otherwise.
\<close>

definition is_ascii :: "string \<Rightarrow> bool" where
  "is_ascii s = list_all (\<lambda>c. (of_char c :: nat) < 128) s"

definition compare_digest :: "string \<Rightarrow> string \<Rightarrow> py_exception + bool" where
  "compare_digest a b =
     (if is_ascii a \<and> is_ascii b then Inr (a = b) else Inl TypeError)"

section \<open>The data model\<close>

text \<open>
  The two enumerations. \<^verbatim>\<open>SIT_HandshakeState.TIMEOUT\<close> is \<open>STATE_TIMEOUT\<close> here,
  since \<open>TIMEOUT\<close> is the error code.
\<close>

datatype SIT_HandshakeState =
  INIT | SYN_SENT | SYN_RECEIVED | ESTABLISHED | FAILED | STATE_TIMEOUT

datatype SIT_HandshakeError =
    OK
  | SCOPE_MISMATCH
  | CONSTRAINT_CONFLICT
  | SIGNATURE_INVALID
  | TIMEOUT
  | REQUESTER_DENIED
  | SEMANTIC_INCOMPATIBLE

record SIT_SYN =
  syn_session_id :: string
  syn_requester_id :: string
  syn_intent_scope :: string
  syn_semantic_boundary :: dict
  syn_constraints :: dict
  syn_timestamp :: string
  syn_ttl_seconds :: int
  syn_signature :: "string option"

record SIT_SYN_ACK =
  sa_session_id :: string
  sa_syn_signature :: "string option"
  sa_responder_id :: string
  sa_accepted_scope :: string
  sa_constraints_accepted :: dict
  sa_constraints_modified :: dict
  sa_session_token :: string
  sa_timestamp :: string
  sa_signature :: "string option"

record SIT_ACK =
  ack_session_id :: string
  ack_session_token :: string
  ack_syn_ack_signature :: "string option"
  ack_confirmed :: bool
  ack_semantic_mode :: string
  ack_timestamp :: string
  ack_signature :: "string option"

record SIT_Session =
  session_id :: string
  session_token :: string
  requester_id :: string
  responder_id :: string
  agreed_scope :: string
  agreed_constraints :: dict
  semantic_mode :: string
  state :: SIT_HandshakeState
  established_at :: string
  expires_at :: string
  signature_chain :: "string option list"

text \<open>
  An entry of \<^verbatim>\<open>pending_sessions\<close>: the dictionary with the keys \<^verbatim>\<open>"state"\<close>,
  \<^verbatim>\<open>"syn"\<close>, \<^verbatim>\<open>"created_at"\<close> and, when \<^verbatim>\<open>process_syn\<close> wrote it,
  \<^verbatim>\<open>"syn_ack"\<close>. The entry keeps the values of the messages; no operation of the
  manager writes to a message after it has stored it.
\<close>

record pending =
  p_state :: SIT_HandshakeState
  p_syn :: SIT_SYN
  p_syn_ack :: "SIT_SYN_ACK option"
  p_created_at :: datetime

record SIT_Handshake =
  secret_key :: string
  entity_id :: string
  pending_sessions :: "string \<Rightarrow> pending option"
  established_sessions :: "string \<Rightarrow> SIT_Session option"

text \<open>
  What a call of an operation does: it returns \<^verbatim>\<open>(x, None)\<close> (\<open>Success x\<close>), it
  returns \<^verbatim>\<open>(None, e)\<close> (\<open>Failure e\<close>), or an exception leaves it (\<open>Raises\<close>).
\<close>

datatype 'a result = Success 'a | Failure SIT_HandshakeError | Raises py_exception

definition opt_str :: "string option \<Rightarrow> json" where
  "opt_str s = (case s of None \<Rightarrow> JNull | Some x \<Rightarrow> JStr x)"

text \<open>\<^verbatim>\<open>x or {}\<close> and \<^verbatim>\<open>x or ""\<close> (an empty value is its own replacement).\<close>

definition or_empty_dict :: "dict option \<Rightarrow> dict" where
  "or_empty_dict d = (case d of None \<Rightarrow> Map.empty | Some m \<Rightarrow> m)"

definition or_empty_str :: "string option \<Rightarrow> string" where
  "or_empty_str s = (case s of None \<Rightarrow> [] | Some x \<Rightarrow> x)"

definition syn_to_dict :: "SIT_SYN \<Rightarrow> dict" where
  "syn_to_dict s =
     [''type'' \<mapsto> JStr ''SIT-SYN'',
      ''session_id'' \<mapsto> JStr (syn_session_id s),
      ''requester_id'' \<mapsto> JStr (syn_requester_id s),
      ''intent_scope'' \<mapsto> JStr (syn_intent_scope s),
      ''semantic_boundary'' \<mapsto> JDict (syn_semantic_boundary s),
      ''constraints'' \<mapsto> JDict (syn_constraints s),
      ''timestamp'' \<mapsto> JStr (syn_timestamp s),
      ''ttl_seconds'' \<mapsto> JInt (syn_ttl_seconds s),
      ''signature'' \<mapsto> opt_str (syn_signature s)]"

definition syn_ack_to_dict :: "SIT_SYN_ACK \<Rightarrow> dict" where
  "syn_ack_to_dict s =
     [''type'' \<mapsto> JStr ''SIT-SYN-ACK'',
      ''session_id'' \<mapsto> JStr (sa_session_id s),
      ''syn_signature'' \<mapsto> opt_str (sa_syn_signature s),
      ''responder_id'' \<mapsto> JStr (sa_responder_id s),
      ''accepted_scope'' \<mapsto> JStr (sa_accepted_scope s),
      ''constraints_accepted'' \<mapsto> JDict (sa_constraints_accepted s),
      ''constraints_modified'' \<mapsto> JDict (sa_constraints_modified s),
      ''session_token'' \<mapsto> JStr (sa_session_token s),
      ''timestamp'' \<mapsto> JStr (sa_timestamp s),
      ''signature'' \<mapsto> opt_str (sa_signature s)]"

definition ack_to_dict :: "SIT_ACK \<Rightarrow> dict" where
  "ack_to_dict a =
     [''type'' \<mapsto> JStr ''SIT-ACK'',
      ''session_id'' \<mapsto> JStr (ack_session_id a),
      ''session_token'' \<mapsto> JStr (ack_session_token a),
      ''syn_ack_signature'' \<mapsto> opt_str (ack_syn_ack_signature a),
      ''confirmed'' \<mapsto> JBool (ack_confirmed a),
      ''semantic_mode'' \<mapsto> JStr (ack_semantic_mode a),
      ''timestamp'' \<mapsto> JStr (ack_timestamp a),
      ''signature'' \<mapsto> opt_str (ack_signature a)]"

section \<open>The handshake manager\<close>

definition init :: "string \<Rightarrow> string \<Rightarrow> SIT_Handshake" where
  "init key entity =
     \<lparr>secret_key = utf8_encode key, entity_id = entity,
      pending_sessions = Map.empty, established_sessions = Map.empty\<rparr>"

subsection \<open>Signatures and time\<close>

definition sign :: "pylib \<Rightarrow> SIT_Handshake \<Rightarrow> dict \<Rightarrow> string" where
  "sign lib self data =
     (let data_copy = (\<lambda>k. if k \<noteq> ''signature'' then data k else None);
          payload = utf8_encode (json_dumps lib (JDict data_copy))
      in hexdigest (hmac_new lib (secret_key self) payload))"

definition verify_signature ::
  "pylib \<Rightarrow> SIT_Handshake \<Rightarrow> dict \<Rightarrow> string option \<Rightarrow> py_exception + bool" where
  "verify_signature lib self data signature =
     (let expected = sign lib self data
      in compare_digest expected (or_empty_str signature))"

text \<open>
  \<^verbatim>\<open>_is_timeout(start_time, ttl_seconds)\<close>; \<open>utcnow\<close> is the reading of the clock
  in the call. A \<^verbatim>\<open>str\<close> argument is parsed first, and the parser's
  \<^verbatim>\<open>ValueError\<close> leaves the call. \<^verbatim>\<open>total_seconds() > ttl_seconds\<close> is
  compared exactly, in microseconds; the floating-point quotient of the source can
  differ from it only for spans beyond \<open>2 ^ 53\<close> microseconds, and no property below
  depends on the comparison there.
\<close>

datatype start_time = StartStr string | StartDatetime datetime

definition is_timeout :: "pylib \<Rightarrow> int \<Rightarrow> start_time \<Rightarrow> int \<Rightarrow> py_exception + bool" where
  "is_timeout lib utcnow start ttl_seconds =
     (case (case start of
              StartStr s \<Rightarrow> fromisoformat lib (replace_Z s)
            | StartDatetime d \<Rightarrow> Some d) of
        None \<Rightarrow> Inl ValueError
      | Some d \<Rightarrow> Inr (utcnow - wall d > ttl_seconds * 1000000))"

subsection \<open>The requester's side\<close>

text \<open>
  \<^verbatim>\<open>create_syn\<close>; \<open>uuid\<close> is the value of \<^verbatim>\<open>str(uuid.uuid4())\<close>, \<open>t_stamp\<close>
  and \<open>t_created\<close> are the two readings of the clock (the default of
  \<^verbatim>\<open>timestamp\<close> and \<^verbatim>\<open>created_at\<close>).
\<close>

definition create_syn ::
  "pylib \<Rightarrow> SIT_Handshake \<Rightarrow> string \<Rightarrow> int \<Rightarrow> int \<Rightarrow> string \<Rightarrow> dict \<Rightarrow> dict option
     \<Rightarrow> SIT_SYN \<times> SIT_Handshake" where
  "create_syn lib self uuid t_stamp t_created intent_scope semantic_boundary constraints =
     (let syn0 = \<lparr>syn_session_id = uuid,
                  syn_requester_id = entity_id self,
                  syn_intent_scope = intent_scope,
                  syn_semantic_boundary = semantic_boundary,
                  syn_constraints = or_empty_dict constraints,
                  syn_timestamp = isoformat lib t_stamp @ ''Z'',
                  syn_ttl_seconds = 30,
                  syn_signature = None\<rparr>;
          syn = syn0\<lparr>syn_signature := Some (sign lib self (syn_to_dict syn0))\<rparr>
      in (syn,
          self\<lparr>pending_sessions := (pending_sessions self)(uuid \<mapsto>
            \<lparr>p_state = SYN_SENT, p_syn = syn, p_syn_ack = None,
             p_created_at = Datetime t_created None\<rparr>)\<rparr>))"

text \<open>
  \<^verbatim>\<open>process_syn_ack\<close>; the clock is read for the timeout (\<open>t_check\<close>), for the
  default \<^verbatim>\<open>timestamp\<close> of the \<^verbatim>\<open>SIT_ACK\<close> (\<open>t_stamp\<close>), for
  \<^verbatim>\<open>established_at\<close> (\<open>t_est\<close>) and for \<^verbatim>\<open>expires_at\<close> (\<open>t_exp\<close>).
\<close>

definition process_syn_ack ::
  "pylib \<Rightarrow> SIT_Handshake \<Rightarrow> SIT_SYN_ACK \<Rightarrow> int \<Rightarrow> int \<Rightarrow> int \<Rightarrow> int
     \<Rightarrow> SIT_ACK result \<times> SIT_Handshake" where
  "process_syn_ack lib self syn_ack t_check t_stamp t_est t_exp =
     (let sid = sa_session_id syn_ack in
      case pending_sessions self sid of
        None \<Rightarrow> (Failure SCOPE_MISMATCH, self)
      | Some pend \<Rightarrow>
         (case verify_signature lib self (syn_ack_to_dict syn_ack) (sa_signature syn_ack) of
            Inl e \<Rightarrow> (Raises e, self)
          | Inr False \<Rightarrow> (Failure SIGNATURE_INVALID, self)
          | Inr True \<Rightarrow>
             if sa_syn_signature syn_ack \<noteq> syn_signature (p_syn pend)
             then (Failure SIGNATURE_INVALID, self)
             else
              (case is_timeout lib t_check (StartDatetime (p_created_at pend))
                      (syn_ttl_seconds (p_syn pend)) of
                 Inl e \<Rightarrow> (Raises e, self)
               | Inr True \<Rightarrow>
                  (Failure TIMEOUT,
                   self\<lparr>pending_sessions := (pending_sessions self)(sid := None)\<rparr>)
               | Inr False \<Rightarrow>
                  (let ack0 = \<lparr>ack_session_id = sid,
                               ack_session_token = sa_session_token syn_ack,
                               ack_syn_ack_signature = sa_signature syn_ack,
                               ack_confirmed = True,
                               ack_semantic_mode = ''shared-'' @ take 8 sid,
                               ack_timestamp = isoformat lib t_stamp @ ''Z'',
                               ack_signature = None\<rparr>;
                       ack = ack0\<lparr>ack_signature := Some (sign lib self (ack_to_dict ack0))\<rparr>;
                       session = \<lparr>session_id = sid,
                                  session_token = sa_session_token syn_ack,
                                  requester_id = entity_id self,
                                  responder_id = sa_responder_id syn_ack,
                                  agreed_scope = sa_accepted_scope syn_ack,
                                  agreed_constraints =
                                    sa_constraints_accepted syn_ack ++ sa_constraints_modified syn_ack,
                                  semantic_mode = ack_semantic_mode ack,
                                  state = ESTABLISHED,
                                  established_at = isoformat lib t_est @ ''Z'',
                                  expires_at = isoformat lib (t_exp + 3600000000) @ ''Z'',
                                  signature_chain =
                                    [syn_signature (p_syn pend), sa_signature syn_ack,
                                     ack_signature ack]\<rparr>
                   in (Success ack,
                       self\<lparr>established_sessions := (established_sessions self)(sid \<mapsto> session),
                            pending_sessions := (pending_sessions self)(sid := None)\<rparr>)))))"

subsection \<open>The responder's side\<close>

text \<open>
  \<^verbatim>\<open>process_syn\<close>; \<open>uuid\<close> is the fresh \<^verbatim>\<open>session_token\<close>, and the clock is
  read for the timeout (\<open>t_check\<close>, only when the timestamp parses), for the default
  \<^verbatim>\<open>timestamp\<close> (\<open>t_stamp\<close>) and for \<^verbatim>\<open>created_at\<close> (\<open>t_created\<close>). Whatever
  is raised inside the \<^verbatim>\<open>try\<close> block is dropped by its bare \<^verbatim>\<open>except\<close>.
\<close>

definition process_syn ::
  "pylib \<Rightarrow> SIT_Handshake \<Rightarrow> SIT_SYN \<Rightarrow> bool \<Rightarrow> dict option \<Rightarrow> string \<Rightarrow> int \<Rightarrow> int \<Rightarrow> int
     \<Rightarrow> SIT_SYN_ACK result \<times> SIT_Handshake" where
  "process_syn lib self syn accept modified_constraints uuid t_check t_stamp t_created =
     (case verify_signature lib self (syn_to_dict syn) (syn_signature syn) of
        Inl e \<Rightarrow> (Raises e, self)
      | Inr False \<Rightarrow> (Failure SIGNATURE_INVALID, self)
      | Inr True \<Rightarrow>
         if (case fromisoformat lib (replace_Z (syn_timestamp syn)) of
               None \<Rightarrow> False
             | Some syn_time \<Rightarrow>
                (case is_timeout lib t_check (StartDatetime syn_time) (syn_ttl_seconds syn) of
                   Inl e \<Rightarrow> False
                 | Inr b \<Rightarrow> b))
         then (Failure TIMEOUT, self)
         else if \<not> accept then (Failure REQUESTER_DENIED, self)
         else
          (let syn_ack0 = \<lparr>sa_session_id = syn_session_id syn,
                           sa_syn_signature = syn_signature syn,
                           sa_responder_id = entity_id self,
                           sa_accepted_scope = syn_intent_scope syn,
                           sa_constraints_accepted = syn_constraints syn,
                           sa_constraints_modified = or_empty_dict modified_constraints,
                           sa_session_token = uuid,
                           sa_timestamp = isoformat lib t_stamp @ ''Z'',
                           sa_signature = None\<rparr>;
               syn_ack = syn_ack0\<lparr>sa_signature :=
                           Some (sign lib self (syn_ack_to_dict syn_ack0))\<rparr>
           in (Success syn_ack,
               self\<lparr>pending_sessions := (pending_sessions self)(syn_session_id syn \<mapsto>
                 \<lparr>p_state = SYN_RECEIVED, p_syn = syn, p_syn_ack = Some syn_ack,
                  p_created_at = Datetime t_created None\<rparr>)\<rparr>)))"

text \<open>
  \<^verbatim>\<open>process_ack\<close>; the clock is read for \<^verbatim>\<open>established_at\<close> (\<open>t_est\<close>) and for
  \<^verbatim>\<open>expires_at\<close> (\<open>t_exp\<close>). \<^verbatim>\<open>pending["syn_ack"]\<close> raises \<^verbatim>\<open>KeyError\<close> on an
  entry that \<^verbatim>\<open>create_syn\<close> wrote.
\<close>

definition process_ack ::
  "pylib \<Rightarrow> SIT_Handshake \<Rightarrow> SIT_ACK \<Rightarrow> int \<Rightarrow> int \<Rightarrow> SIT_Session result \<times> SIT_Handshake" where
  "process_ack lib self ack t_est t_exp =
     (let sid = ack_session_id ack in
      case pending_sessions self sid of
        None \<Rightarrow> (Failure SCOPE_MISMATCH, self)
      | Some pend \<Rightarrow>
         (case verify_signature lib self (ack_to_dict ack) (ack_signature ack) of
            Inl e \<Rightarrow> (Raises e, self)
          | Inr False \<Rightarrow> (Failure SIGNATURE_INVALID, self)
          | Inr True \<Rightarrow>
             (case p_syn_ack pend of
                None \<Rightarrow> (Raises KeyError, self)
              | Some syn_ack \<Rightarrow>
                 if ack_syn_ack_signature ack \<noteq> sa_signature syn_ack
                 then (Failure SIGNATURE_INVALID, self)
                 else if ack_session_token ack \<noteq> sa_session_token syn_ack
                 then (Failure SCOPE_MISMATCH, self)
                 else if \<not> ack_confirmed ack then (Failure REQUESTER_DENIED, self)
                 else
                  (let syn = p_syn pend;
                       session = \<lparr>session_id = sid,
                                  session_token = ack_session_token ack,
                                  requester_id = syn_requester_id syn,
                                  responder_id = entity_id self,
                                  agreed_scope = sa_accepted_scope syn_ack,
                                  agreed_constraints =
                                    sa_constraints_accepted syn_ack ++ sa_constraints_modified syn_ack,
                                  semantic_mode = ack_semantic_mode ack,
                                  state = ESTABLISHED,
                                  established_at = isoformat lib t_est @ ''Z'',
                                  expires_at = isoformat lib (t_exp + 3600000000) @ ''Z'',
                                  signature_chain =
                                    [syn_signature syn, sa_signature syn_ack, ack_signature ack]\<rparr>
                   in (Success session,
                       self\<lparr>established_sessions := (established_sessions self)(sid \<mapsto> session),
                            pending_sessions := (pending_sessions self)(sid := None)\<rparr>)))))"

subsection \<open>The session registry\<close>

definition get_session :: "SIT_Handshake \<Rightarrow> string \<Rightarrow> SIT_Session option" where
  "get_session self sid = established_sessions self sid"

text \<open>
  \<^verbatim>\<open>is_session_valid\<close>; \<open>utcnow\<close> is the reading of the clock. The method assigns
  nothing, so the manager it returns is the one it was given.
\<close>

definition is_session_valid :: "pylib \<Rightarrow> SIT_Handshake \<Rightarrow> int \<Rightarrow> string \<Rightarrow> bool \<times> SIT_Handshake" where
  "is_session_valid lib self utcnow sid =
     (case established_sessions self sid of
        None \<Rightarrow> (False, self)
      | Some session \<Rightarrow>
         (case fromisoformat lib (replace_Z (expires_at session)) of
            None \<Rightarrow> (False, self)
          | Some expires \<Rightarrow> (utcnow < wall expires, self)))"

section \<open>A small library and a run of the handshake\<close>

text \<open>
  To run the operations on concrete messages the library functions need values. The
  record \<open>demo_lib\<close> stands in for them in the concrete runs below, and only there: its
  digest is two bytes of the message and a checksum of all of them, its serialiser
  writes four string fields, and its timestamps are microsecond counts in decimal.
\<close>

fun digits :: "nat \<Rightarrow> string" where
  "digits n =
     (if n < 10 then [''0123456789'' ! n]
      else digits (n div 10) @ [''0123456789'' ! (n mod 10)])"

fun parse_digits :: "string \<Rightarrow> nat \<Rightarrow> datetime option" where
  "parse_digits [] acc = None"
| "parse_digits (c # cs) acc =
     (if c = CHR ''+''
      then (if cs = ''00:00'' then Some (Datetime (int acc) (Some 0)) else None)
      else if 48 \<le> (of_char c :: nat) \<and> (of_char c :: nat) < 58
      then parse_digits cs (10 * acc + ((of_char c :: nat) - 48))
      else None)"

definition demo_dumps :: "json \<Rightarrow> string" where
  "demo_dumps v =
     (case v of
        JDict m \<Rightarrow>
          concat (map (\<lambda>k. case m k of Some (JStr s) \<Rightarrow> s @ '';'' | _ \<Rightarrow> ''-;'')
                    [''type'', ''session_id'', ''session_token'', ''timestamp''])
      | _ \<Rightarrow> [])"

definition demo_lib :: pylib where
  "demo_lib =
     \<lparr>sha256 = (\<lambda>m. take 2 m @ [char_of (sum_list (map of_char m) :: nat)]),
      json_dumps = demo_dumps,
      fromisoformat = (\<lambda>s. parse_digits s 0),
      isoformat = (\<lambda>t. digits (nat t))\<rparr>"

text \<open>
  Alice offers the scope \<^verbatim>\<open>read-profile\<close> with \<^verbatim>\<open>{"max_x": 1000}\<close>, Bob accepts
  with \<^verbatim>\<open>{"max_x": 500}\<close>, Alice confirms. Both hold the key \<^verbatim>\<open>k1\<close>.
\<close>

definition alice :: SIT_Handshake where
  "alice = init ''k1'' ''alice-001''"

definition bob :: SIT_Handshake where
  "bob = init ''k1'' ''bob-001''"

definition demo_syn :: SIT_SYN where
  "demo_syn =
     \<lparr>syn_session_id = ''sid-0001-abcd'', syn_requester_id = ''alice-001'',
      syn_intent_scope = ''read-profile'', syn_semantic_boundary = Map.empty,
      syn_constraints = [''max_x'' \<mapsto> JInt 1000], syn_timestamp = ''5Z'',
      syn_ttl_seconds = 30, syn_signature = Some ''376d6c''\<rparr>"

definition alice1 :: SIT_Handshake where
  "alice1 = alice\<lparr>pending_sessions := [''sid-0001-abcd'' \<mapsto>
     \<lparr>p_state = SYN_SENT, p_syn = demo_syn, p_syn_ack = None,
      p_created_at = Datetime 6 None\<rparr>]\<rparr>"

definition demo_syn_ack :: SIT_SYN_ACK where
  "demo_syn_ack =
     \<lparr>sa_session_id = ''sid-0001-abcd'', sa_syn_signature = Some ''376d6c'',
      sa_responder_id = ''bob-001'', sa_accepted_scope = ''read-profile'',
      sa_constraints_accepted = [''max_x'' \<mapsto> JInt 1000],
      sa_constraints_modified = [''max_x'' \<mapsto> JInt 500],
      sa_session_token = ''token-1'', sa_timestamp = ''8Z'',
      sa_signature = Some ''376dbd''\<rparr>"

definition bob_pending :: pending where
  "bob_pending =
     \<lparr>p_state = SYN_RECEIVED, p_syn = demo_syn, p_syn_ack = Some demo_syn_ack,
      p_created_at = Datetime 9 None\<rparr>"

definition bob1 :: SIT_Handshake where
  "bob1 = bob\<lparr>pending_sessions := [''sid-0001-abcd'' \<mapsto> bob_pending]\<rparr>"

definition demo_ack :: SIT_ACK where
  "demo_ack =
     \<lparr>ack_session_id = ''sid-0001-abcd'', ack_session_token = ''token-1'',
      ack_syn_ack_signature = Some ''376dbd'', ack_confirmed = True,
      ack_semantic_mode = ''shared-sid-0001'', ack_timestamp = ''11Z'',
      ack_signature = Some ''376dc0''\<rparr>"

definition alice_session :: SIT_Session where
  "alice_session =
     \<lparr>session_id = ''sid-0001-abcd'', session_token = ''token-1'',
      requester_id = ''alice-001'', responder_id = ''bob-001'',
      agreed_scope = ''read-profile'', agreed_constraints = [''max_x'' \<mapsto> JInt 500],
      semantic_mode = ''shared-sid-0001'', state = ESTABLISHED,
      established_at = ''12Z'', expires_at = ''3600000013Z'',
      signature_chain = [Some ''376d6c'', Some ''376dbd'', Some ''376dc0'']\<rparr>"

definition alice2 :: SIT_Handshake where
  "alice2 = alice\<lparr>established_sessions := [''sid-0001-abcd'' \<mapsto> alice_session]\<rparr>"

definition bob_session :: SIT_Session where
  "bob_session =
     \<lparr>session_id = ''sid-0001-abcd'', session_token = ''token-1'',
      requester_id = ''alice-001'', responder_id = ''bob-001'',
      agreed_scope = ''read-profile'', agreed_constraints = [''max_x'' \<mapsto> JInt 500],
      semantic_mode = ''shared-sid-0001'', state = ESTABLISHED,
      established_at = ''14Z'', expires_at = ''3600000015Z'',
      signature_chain = [Some ''376d6c'', Some ''376dbd'', Some ''376dc0'']\<rparr>"

definition bob2 :: SIT_Handshake where
  "bob2 = bob\<lparr>established_sessions := [''sid-0001-abcd'' \<mapsto> bob_session]\<rparr>"

text \<open>A confirmation that Bob's key signs and that names another session token.\<close>

definition other_token_ack :: SIT_ACK where
  "other_token_ack =
     demo_ack\<lparr>ack_session_token := ''token-2'', ack_signature := Some ''376dc1''\<rparr>"

text \<open>
  A response to Alice's offer whose \<^verbatim>\<open>syn_signature\<close> is not the offer's and whose
  \<^verbatim>\<open>signature\<close> is the one-character string \<^verbatim>\<open>"\xe9"\<close>.
\<close>

definition non_ascii_syn_ack :: SIT_SYN_ACK where
  "non_ascii_syn_ack =
     demo_syn_ack\<lparr>sa_syn_signature := Some ''00'', sa_signature := Some [CHR 0xE9]\<rparr>"

text \<open>
  Alice's pending entry with an offer whose \<^verbatim>\<open>ttl_seconds\<close> is 0.
  \<^verbatim>\<open>create_syn\<close> itself always writes 30; the entry holds the very object that
  \<^verbatim>\<open>create_syn\<close> returns, so this is the manager after the caller has set the field
  on the offer it was given.
\<close>

definition alice_ttl0 :: SIT_Handshake where
  "alice_ttl0 = alice\<lparr>pending_sessions := [''sid-0001-abcd'' \<mapsto>
     \<lparr>p_state = SYN_SENT, p_syn = demo_syn\<lparr>syn_ttl_seconds := 0\<rparr>, p_syn_ack = None,
      p_created_at = Datetime 6 None\<rparr>]\<rparr>"

text \<open>An offer that the key \<^verbatim>\<open>k1\<close> signs and whose timestamp is no ISO instant.\<close>

definition garbage_syn :: SIT_SYN where
  "garbage_syn =
     demo_syn\<lparr>syn_timestamp := ''garbage'', syn_ttl_seconds := 0,
              syn_signature := Some ''376da6''\<rparr>"

text \<open>A responder whose key is Alice's key followed by a NUL character.\<close>

definition bob_nul :: SIT_Handshake where
  "bob_nul = init (''k1'' @ [CHR 0x00]) ''bob-001''"

definition bob_nul1 :: SIT_Handshake where
  "bob_nul1 = bob_nul\<lparr>pending_sessions := [''sid-0001-abcd'' \<mapsto> bob_pending]\<rparr>"

definition bob_nul2 :: SIT_Handshake where
  "bob_nul2 = bob_nul\<lparr>established_sessions := [''sid-0001-abcd'' \<mapsto> bob_session]\<rparr>"

section \<open>Properties\<close>

subsection \<open>Signatures\<close>

text \<open>
  The expected signature is a string of hexadecimal digits, so
  \<^verbatim>\<open>compare_digest\<close> raises only for what the message carries.
\<close>

lemma hex_digit_ascii: "(of_char (hex_digit n) :: nat) < 128"
proof -
  have "\<forall>c \<in> set ''0123456789abcdef''. (of_char c :: nat) < 128" by simp
  moreover have "hex_digit n \<in> set ''0123456789abcdef''"
    unfolding hex_digit_def by (rule nth_mem) simp
  ultimately show ?thesis by blast
qed

lemma is_ascii_hexdigest: "is_ascii (hexdigest d)"
  by (induction d) (simp_all add: is_ascii_def hexdigest_def hex_digit_ascii)

lemma is_ascii_sign: "is_ascii (sign lib self data)"
  by (simp add: sign_def Let_def is_ascii_hexdigest)

lemma verify_signature_True_iff:
  "verify_signature lib self data sg = Inr True \<longleftrightarrow> or_empty_str sg = sign lib self data"
  by (auto simp: verify_signature_def compare_digest_def Let_def is_ascii_sign)

lemma verify_signature_Inl_iff:
  "verify_signature lib self data sg = Inl e \<longleftrightarrow> e = TypeError \<and> \<not> is_ascii (or_empty_str sg)"
  by (auto simp: verify_signature_def compare_digest_def Let_def is_ascii_sign)

subsection \<open>The run of the handshake\<close>

lemmas demo_simps = create_syn_def process_syn_def process_syn_ack_def process_ack_def
  alice_def bob_def init_def sign_def verify_signature_def compare_digest_def is_ascii_def
  syn_to_dict_def syn_ack_to_dict_def ack_to_dict_def hmac_new_def demo_lib_def xor_byte_def
  utf8_encode_def demo_dumps_def hexdigest_def hex_digit_def Let_def or_empty_dict_def or_empty_str_def
  opt_str_def is_timeout_def replace_Z_def sum_list_replicate

lemma demo_step1:
  "create_syn demo_lib alice ''sid-0001-abcd'' 5 6 ''read-profile'' Map.empty
     (Some [''max_x'' \<mapsto> JInt 1000]) = (demo_syn, alice1)"
  by (simp add: demo_simps demo_syn_def alice1_def)

lemma demo_step2:
  "process_syn demo_lib bob demo_syn True (Some [''max_x'' \<mapsto> JInt 500]) ''token-1'' 7 8 9
     = (Success demo_syn_ack, bob1)"
  by (simp add: demo_simps demo_syn_def demo_syn_ack_def bob1_def bob_pending_def)

lemma demo_step3:
  "process_syn_ack demo_lib alice1 demo_syn_ack 10 11 12 13 = (Success demo_ack, alice2)"
  by (simp add: demo_simps demo_syn_def demo_syn_ack_def alice1_def demo_ack_def alice2_def alice_session_def)

lemma demo_step4:
  "process_ack demo_lib bob1 demo_ack 14 15 = (Success bob_session, bob2)"
  by (simp add: demo_simps demo_syn_def demo_syn_ack_def bob1_def bob_pending_def demo_ack_def bob2_def bob_session_def)

subsection \<open>What a successful call has done\<close>

lemma process_syn_Success:
  assumes "process_syn lib self syn accept mc uuid t1 t2 t3 = (Success sa, self')"
  shows "sa_session_id sa = syn_session_id syn"
    and "sa_accepted_scope sa = syn_intent_scope syn"
    and "sa_constraints_accepted sa = syn_constraints syn"
    and "sa_constraints_modified sa = or_empty_dict mc"
    and "sa_session_token sa = uuid"
    and "\<exists>p. pending_sessions self' (syn_session_id syn) = Some p \<and> p_syn p = syn \<and> p_syn_ack p = Some sa"
    and "established_sessions self' = established_sessions self"
  using assms
  by (auto simp: process_syn_def Let_def split: sum.splits bool.splits if_splits)

lemma process_syn_ack_Success:
  assumes "process_syn_ack lib self sa t1 t2 t3 t4 = (Success ack, self')"
  shows "ack_session_id ack = sa_session_id sa"
    and "ack_session_token ack = sa_session_token sa"
    and "ack_syn_ack_signature ack = sa_signature sa"
    and "ack_confirmed ack"
    and "\<exists>s. established_sessions self' (sa_session_id sa) = Some s \<and>
           session_id s = sa_session_id sa \<and> session_token s = sa_session_token sa \<and>
           agreed_scope s = sa_accepted_scope sa \<and>
           agreed_constraints s = sa_constraints_accepted sa ++ sa_constraints_modified sa"
    and "pending_sessions self' (sa_session_id sa) = None"
  using assms
  by (auto simp: process_syn_ack_def Let_def split: option.splits sum.splits bool.splits if_splits)

lemma process_ack_Success:
  assumes "process_ack lib self ack t1 t2 = (Success s, self')"
  shows "\<exists>p sa. pending_sessions self (ack_session_id ack) = Some p \<and> p_syn_ack p = Some sa \<and>
           ack_session_token ack = sa_session_token sa \<and>
           session_id s = ack_session_id ack \<and> session_token s = sa_session_token sa \<and>
           agreed_scope s = sa_accepted_scope sa \<and>
           agreed_constraints s = sa_constraints_accepted sa ++ sa_constraints_modified sa"
    and "established_sessions self' (ack_session_id ack) = Some s"
    and "pending_sessions self' (ack_session_id ack) = None"
  using assms
  by (auto simp: process_ack_def Let_def split: option.splits sum.splits bool.splits if_splits)

subsection \<open>Both sides hold the same session\<close>

text \<open>
  Claim C1. When the offer that \<^verbatim>\<open>create_syn\<close> returns is accepted by the
  responder's \<^verbatim>\<open>process_syn\<close>, that response by the requester's
  \<^verbatim>\<open>process_syn_ack\<close>, and that confirmation by the responder's
  \<^verbatim>\<open>process_ack\<close>, the session the requester has stored and the session the
  responder has stored have the same \<^verbatim>\<open>session_id\<close>, \<^verbatim>\<open>session_token\<close>,
  \<^verbatim>\<open>agreed_scope\<close> and \<^verbatim>\<open>agreed_constraints\<close>. The two managers \<open>A\<close> and \<open>B\<close>
  are arbitrary; in particular they may hold the same \<^verbatim>\<open>secret_key\<close>.
\<close>

theorem handshake_sessions_agree:
  assumes "create_syn lib A uuid t1 t2 scope boundary cons = (syn, A1)"
      and "process_syn lib B syn accept mc token t3 t4 t5 = (Success syn_ack, B1)"
      and "process_syn_ack lib A1 syn_ack t6 t7 t8 t9 = (Success ack, A2)"
      and "process_ack lib B1 ack t10 t11 = (Success session, B2)"
  shows "\<exists>sa sb. established_sessions A2 (syn_session_id syn) = Some sa \<and>
                 established_sessions B2 (syn_session_id syn) = Some sb \<and>
                 session_id sa = session_id sb \<and>
                 session_token sa = session_token sb \<and>
                 agreed_scope sa = agreed_scope sb \<and>
                 agreed_constraints sa = agreed_constraints sb"
proof -
  have sid: "sa_session_id syn_ack = syn_session_id syn"
    by (rule process_syn_Success(1)[OF assms(2)])
  from process_syn_Success(6)[OF assms(2)] obtain p
    where p: "pending_sessions B1 (syn_session_id syn) = Some p" "p_syn_ack p = Some syn_ack"
    by blast
  have aid: "ack_session_id ack = syn_session_id syn"
    using process_syn_ack_Success(1)[OF assms(3)] sid by simp
  from process_syn_ack_Success(5)[OF assms(3)] obtain sa
    where sa: "established_sessions A2 (syn_session_id syn) = Some sa"
      "session_id sa = syn_session_id syn" "session_token sa = sa_session_token syn_ack"
      "agreed_scope sa = sa_accepted_scope syn_ack"
      "agreed_constraints sa = sa_constraints_accepted syn_ack ++ sa_constraints_modified syn_ack"
    using sid by auto
  from process_ack_Success(1)[OF assms(4)] p aid
  have sb: "session_id session = syn_session_id syn" "session_token session = sa_session_token syn_ack"
      "agreed_scope session = sa_accepted_scope syn_ack"
      "agreed_constraints session = sa_constraints_accepted syn_ack ++ sa_constraints_modified syn_ack"
    by auto
  have "established_sessions B2 (syn_session_id syn) = Some session"
    using process_ack_Success(2)[OF assms(4)] aid by simp
  with sa sb show ?thesis by simp
qed

theorem handshake_sessions_agree_witness:
  "create_syn demo_lib alice ''sid-0001-abcd'' 5 6 ''read-profile'' Map.empty
     (Some [''max_x'' \<mapsto> JInt 1000]) = (demo_syn, alice1) \<and>
   process_syn demo_lib bob demo_syn True (Some [''max_x'' \<mapsto> JInt 500]) ''token-1'' 7 8 9
     = (Success demo_syn_ack, bob1) \<and>
   process_syn_ack demo_lib alice1 demo_syn_ack 10 11 12 13 = (Success demo_ack, alice2) \<and>
   process_ack demo_lib bob1 demo_ack 14 15 = (Success bob_session, bob2) \<and>
   (\<exists>sa sb. established_sessions alice2 (syn_session_id demo_syn) = Some sa \<and>
            established_sessions bob2 (syn_session_id demo_syn) = Some sb \<and>
            session_id sa = session_id sb \<and>
            session_token sa = session_token sb \<and>
            agreed_scope sa = agreed_scope sb \<and>
            agreed_constraints sa = agreed_constraints sb)"
  using handshake_sessions_agree [OF demo_step1 demo_step2 demo_step3 demo_step4]
    demo_step1 demo_step2 demo_step3 demo_step4
  by blast

subsection \<open>The agreed constraints\<close>

text \<open>
  Claim C2. The session that either side stores has as \<^verbatim>\<open>agreed_constraints\<close> the
  response's \<^verbatim>\<open>constraints_accepted\<close> overlaid by its \<^verbatim>\<open>constraints_modified\<close>: on
  every key the modified value is taken where there is one, the accepted value
  otherwise. With \<^verbatim>\<open>{"max_x": 1000}\<close> accepted and \<^verbatim>\<open>{"max_x": 500}\<close> modified the
  session has 500 under \<^verbatim>\<open>max_x\<close>. The requester reads the response it is given, the
  responder the response it has stored.
\<close>

theorem agreed_constraints_overlay:
  "(process_syn_ack lib req syn_ack t1 t2 t3 t4 = (Success ack, req') \<longrightarrow>
      (\<exists>s. established_sessions req' (sa_session_id syn_ack) = Some s \<and>
           agreed_constraints s = sa_constraints_accepted syn_ack ++ sa_constraints_modified syn_ack \<and>
           (\<forall>k. agreed_constraints s k =
                  (case sa_constraints_modified syn_ack k of
                     Some v \<Rightarrow> Some v
                   | None \<Rightarrow> sa_constraints_accepted syn_ack k)) \<and>
           (sa_constraints_accepted syn_ack = [''max_x'' \<mapsto> JInt 1000] \<and>
            sa_constraints_modified syn_ack = [''max_x'' \<mapsto> JInt 500] \<longrightarrow>
              agreed_constraints s ''max_x'' = Some (JInt 500)))) \<and>
   (process_ack lib resp ack' t5 t6 = (Success session, resp') \<longrightarrow>
      (\<exists>pend stored. pending_sessions resp (ack_session_id ack') = Some pend \<and>
           p_syn_ack pend = Some stored \<and>
           established_sessions resp' (ack_session_id ack') = Some session \<and>
           agreed_constraints session = sa_constraints_accepted stored ++ sa_constraints_modified stored \<and>
           (\<forall>k. agreed_constraints session k =
                  (case sa_constraints_modified stored k of
                     Some v \<Rightarrow> Some v
                   | None \<Rightarrow> sa_constraints_accepted stored k)) \<and>
           (sa_constraints_accepted stored = [''max_x'' \<mapsto> JInt 1000] \<and>
            sa_constraints_modified stored = [''max_x'' \<mapsto> JInt 500] \<longrightarrow>
              agreed_constraints session ''max_x'' = Some (JInt 500))))"
proof (intro conjI impI)
  assume a: "process_syn_ack lib req syn_ack t1 t2 t3 t4 = (Success ack, req')"
  from process_syn_ack_Success(5)[OF a] obtain s
    where s: "established_sessions req' (sa_session_id syn_ack) = Some s"
      "agreed_constraints s = sa_constraints_accepted syn_ack ++ sa_constraints_modified syn_ack"
    by blast
  have "\<forall>k. agreed_constraints s k =
          (case sa_constraints_modified syn_ack k of Some v \<Rightarrow> Some v
           | None \<Rightarrow> sa_constraints_accepted syn_ack k)"
    by (simp add: s(2) map_add_def)
  moreover have "sa_constraints_accepted syn_ack = [''max_x'' \<mapsto> JInt 1000] \<and>
            sa_constraints_modified syn_ack = [''max_x'' \<mapsto> JInt 500] \<longrightarrow>
              agreed_constraints s ''max_x'' = Some (JInt 500)"
    by (simp add: s(2))
  ultimately show "\<exists>s. established_sessions req' (sa_session_id syn_ack) = Some s \<and>
           agreed_constraints s = sa_constraints_accepted syn_ack ++ sa_constraints_modified syn_ack \<and>
           (\<forall>k. agreed_constraints s k =
                  (case sa_constraints_modified syn_ack k of
                     Some v \<Rightarrow> Some v
                   | None \<Rightarrow> sa_constraints_accepted syn_ack k)) \<and>
           (sa_constraints_accepted syn_ack = [''max_x'' \<mapsto> JInt 1000] \<and>
            sa_constraints_modified syn_ack = [''max_x'' \<mapsto> JInt 500] \<longrightarrow>
              agreed_constraints s ''max_x'' = Some (JInt 500))"
    using s by blast
next
  assume a: "process_ack lib resp ack' t5 t6 = (Success session, resp')"
  from process_ack_Success(1)[OF a] obtain p stored
    where p: "pending_sessions resp (ack_session_id ack') = Some p" "p_syn_ack p = Some stored"
      "agreed_constraints session = sa_constraints_accepted stored ++ sa_constraints_modified stored"
    by blast
  have e: "established_sessions resp' (ack_session_id ack') = Some session"
    by (rule process_ack_Success(2)[OF a])
  have "\<forall>k. agreed_constraints session k =
          (case sa_constraints_modified stored k of Some v \<Rightarrow> Some v
           | None \<Rightarrow> sa_constraints_accepted stored k)"
    by (simp add: p(3) map_add_def)
  moreover have "sa_constraints_accepted stored = [''max_x'' \<mapsto> JInt 1000] \<and>
            sa_constraints_modified stored = [''max_x'' \<mapsto> JInt 500] \<longrightarrow>
              agreed_constraints session ''max_x'' = Some (JInt 500)"
    by (simp add: p(3))
  ultimately show "\<exists>pend stored. pending_sessions resp (ack_session_id ack') = Some pend \<and>
           p_syn_ack pend = Some stored \<and>
           established_sessions resp' (ack_session_id ack') = Some session \<and>
           agreed_constraints session = sa_constraints_accepted stored ++ sa_constraints_modified stored \<and>
           (\<forall>k. agreed_constraints session k =
                  (case sa_constraints_modified stored k of
                     Some v \<Rightarrow> Some v
                   | None \<Rightarrow> sa_constraints_accepted stored k)) \<and>
           (sa_constraints_accepted stored = [''max_x'' \<mapsto> JInt 1000] \<and>
            sa_constraints_modified stored = [''max_x'' \<mapsto> JInt 500] \<longrightarrow>
              agreed_constraints session ''max_x'' = Some (JInt 500))"
    using p e by blast
qed

lemma demo_constraints:
  "sa_constraints_accepted demo_syn_ack = [''max_x'' \<mapsto> JInt 1000]"
  "sa_constraints_modified demo_syn_ack = [''max_x'' \<mapsto> JInt 500]"
  by (simp_all add: demo_syn_ack_def)

lemma demo_bob1_pending:
  "pending_sessions bob1 ''sid-0001-abcd'' = Some bob_pending"
  "p_syn_ack bob_pending = Some demo_syn_ack"
  "ack_session_id demo_ack = ''sid-0001-abcd''"
  "sa_session_id demo_syn_ack = ''sid-0001-abcd''"
  by (simp_all add: bob1_def bob_pending_def demo_ack_def demo_syn_ack_def)

text \<open>
  The run above: 1000 accepted, 500 modified, and 500 agreed on both sides.
\<close>

theorem agreed_constraints_overlay_witness:
  "process_syn_ack demo_lib alice1 demo_syn_ack 10 11 12 13 = (Success demo_ack, alice2) \<and>
   process_ack demo_lib bob1 demo_ack 14 15 = (Success bob_session, bob2) \<and>
   sa_constraints_accepted demo_syn_ack = [''max_x'' \<mapsto> JInt 1000] \<and>
   sa_constraints_modified demo_syn_ack = [''max_x'' \<mapsto> JInt 500] \<and>
   (\<exists>s. established_sessions alice2 ''sid-0001-abcd'' = Some s \<and>
        agreed_constraints s ''max_x'' = Some (JInt 500)) \<and>
   (\<exists>s. established_sessions bob2 ''sid-0001-abcd'' = Some s \<and>
        agreed_constraints s ''max_x'' = Some (JInt 500))"
proof -
  note t = agreed_constraints_overlay [of demo_lib alice1 demo_syn_ack 10 11 12 13 demo_ack alice2
      bob1 demo_ack 14 15 bob_session bob2]
  from t demo_step3 demo_constraints demo_bob1_pending(4)
  have a: "\<exists>s. established_sessions alice2 ''sid-0001-abcd'' = Some s \<and>
        agreed_constraints s ''max_x'' = Some (JInt 500)"
    by auto
  from t demo_step4 demo_constraints demo_bob1_pending
  have b: "\<exists>s. established_sessions bob2 ''sid-0001-abcd'' = Some s \<and>
        agreed_constraints s ''max_x'' = Some (JInt 500)"
    by auto
  from a b demo_step3 demo_step4 demo_constraints show ?thesis by blast
qed

subsection \<open>The confirmation\<close>

text \<open>
  Claim C3, as the code has it. A confirmation for a pending session whose own
  signature verifies and whose \<^verbatim>\<open>syn_ack_signature\<close> is the stored response's
  signature, but whose \<^verbatim>\<open>session_token\<close> is not the stored response's, is rejected
  with \<^verbatim>\<open>SCOPE_MISMATCH\<close>, and nothing is changed. (The claim names
  \<^verbatim>\<open>SIGNATURE_INVALID\<close>; that is the result one check earlier, for a
  \<^verbatim>\<open>syn_ack_signature\<close> that differs.)
\<close>

theorem process_ack_token_mismatch:
  assumes "pending_sessions self (ack_session_id ack) = Some pend"
      and "p_syn_ack pend = Some syn_ack"
      and "verify_signature lib self (ack_to_dict ack) (ack_signature ack) = Inr True"
      and "ack_syn_ack_signature ack = sa_signature syn_ack"
      and "ack_session_token ack \<noteq> sa_session_token syn_ack"
  shows "process_ack lib self ack t1 t2 = (Failure SCOPE_MISMATCH, self)"
  using assms by (simp add: process_ack_def Let_def)

lemma other_token_ack_facts:
  "pending_sessions bob1 (ack_session_id other_token_ack) = Some bob_pending"
  "p_syn_ack bob_pending = Some demo_syn_ack"
  "verify_signature demo_lib bob1 (ack_to_dict other_token_ack) (ack_signature other_token_ack)
     = Inr True"
  "ack_syn_ack_signature other_token_ack = sa_signature demo_syn_ack"
  "ack_session_token other_token_ack \<noteq> sa_session_token demo_syn_ack"
  by (simp_all add: demo_simps other_token_ack_def demo_ack_def demo_syn_ack_def bob1_def bob_pending_def)

text \<open>
  Bob holds the pending session of the run and is given the confirmation with another
  token.
\<close>

theorem process_ack_token_mismatch_witness:
  "pending_sessions bob1 (ack_session_id other_token_ack) = Some bob_pending \<and>
   p_syn_ack bob_pending = Some demo_syn_ack \<and>
   verify_signature demo_lib bob1 (ack_to_dict other_token_ack) (ack_signature other_token_ack)
     = Inr True \<and>
   ack_syn_ack_signature other_token_ack = sa_signature demo_syn_ack \<and>
   ack_session_token other_token_ack \<noteq> sa_session_token demo_syn_ack \<and>
   process_ack demo_lib bob1 other_token_ack 14 15 = (Failure SCOPE_MISMATCH, bob1)"
  using process_ack_token_mismatch [OF other_token_ack_facts, of 14 15] other_token_ack_facts
  by simp

text \<open>
  The same confirmation refutes the claim as it was stated: all its conditions hold and
  the result is not \<^verbatim>\<open>SIGNATURE_INVALID\<close>.
\<close>

theorem process_ack_token_mismatch_counterexample:
  "pending_sessions bob1 (ack_session_id other_token_ack) = Some bob_pending \<and>
   p_syn_ack bob_pending = Some demo_syn_ack \<and>
   verify_signature demo_lib bob1 (ack_to_dict other_token_ack) (ack_signature other_token_ack)
     = Inr True \<and>
   ack_syn_ack_signature other_token_ack = sa_signature demo_syn_ack \<and>
   ack_session_token other_token_ack \<noteq> sa_session_token demo_syn_ack \<and>
   fst (process_ack demo_lib bob1 other_token_ack 14 15) \<noteq> Failure SIGNATURE_INVALID"
proof -
  have "process_ack demo_lib bob1 other_token_ack 14 15 = (Failure SCOPE_MISMATCH, bob1)"
    using other_token_ack_facts by (simp add: process_ack_def Let_def)
  then show ?thesis using other_token_ack_facts by simp
qed

text \<open>
  Claim C4. After \<^verbatim>\<open>process_ack\<close> has accepted a confirmation, the same
  confirmation given again to the manager it left returns \<^verbatim>\<open>SCOPE_MISMATCH\<close> and
  leaves that manager as it is: the pending store and the registry are unchanged and no
  second session is made.
\<close>

theorem process_ack_replay:
  assumes "process_ack lib self ack t1 t2 = (Success s, self')"
  shows "process_ack lib self' ack t3 t4 = (Failure SCOPE_MISMATCH, self')"
proof -
  have "pending_sessions self' (ack_session_id ack) = None"
    by (rule process_ack_Success(3)[OF assms])
  then show ?thesis by (simp add: process_ack_def Let_def)
qed

theorem process_ack_replay_witness:
  "process_ack demo_lib bob1 demo_ack 14 15 = (Success bob_session, bob2) \<and>
   process_ack demo_lib bob2 demo_ack 16 17 = (Failure SCOPE_MISMATCH, bob2)"
  using process_ack_replay [OF demo_step4, of 16 17] demo_step4 by simp

subsection \<open>What a rejected response leaves behind\<close>

text \<open>
  Claim C5. When \<^verbatim>\<open>process_syn_ack\<close> returns \<^verbatim>\<open>TIMEOUT\<close>, the pending entry of
  the session existed and is removed, and nothing else is changed. When it returns
  \<^verbatim>\<open>SCOPE_MISMATCH\<close> or \<^verbatim>\<open>SIGNATURE_INVALID\<close>, and on every other path that does
  not succeed, the manager is unchanged.
\<close>

theorem process_syn_ack_failure_state:
  "(fst (process_syn_ack lib self syn_ack t1 t2 t3 t4) = Failure TIMEOUT \<longrightarrow>
      pending_sessions self (sa_session_id syn_ack) \<noteq> None \<and>
      pending_sessions (snd (process_syn_ack lib self syn_ack t1 t2 t3 t4)) (sa_session_id syn_ack) = None \<and>
      snd (process_syn_ack lib self syn_ack t1 t2 t3 t4) =
        self\<lparr>pending_sessions := (pending_sessions self)(sa_session_id syn_ack := None)\<rparr>) \<and>
   (fst (process_syn_ack lib self syn_ack t1 t2 t3 t4) = Failure SCOPE_MISMATCH \<or>
    fst (process_syn_ack lib self syn_ack t1 t2 t3 t4) = Failure SIGNATURE_INVALID \<longrightarrow>
      snd (process_syn_ack lib self syn_ack t1 t2 t3 t4) = self) \<and>
   (fst (process_syn_ack lib self syn_ack t1 t2 t3 t4) \<noteq> Failure TIMEOUT \<and>
    (\<forall>ack. fst (process_syn_ack lib self syn_ack t1 t2 t3 t4) \<noteq> Success ack) \<longrightarrow>
      snd (process_syn_ack lib self syn_ack t1 t2 t3 t4) = self)"
  by (auto simp: process_syn_ack_def Let_def split: option.splits sum.splits bool.splits if_splits)

lemma demo_timeout:
  "fst (process_syn_ack demo_lib alice1 demo_syn_ack 30000007 11 12 13) = Failure TIMEOUT"
  by (simp add: demo_simps demo_syn_def demo_syn_ack_def alice1_def)

lemma demo_unknown_session:
  "fst (process_syn_ack demo_lib alice demo_syn_ack 10 11 12 13) = Failure SCOPE_MISMATCH"
  by (simp add: process_syn_ack_def alice_def init_def)

lemma demo_unsigned:
  "fst (process_syn_ack demo_lib alice1 (demo_syn_ack\<lparr>sa_signature := None\<rparr>) 10 11 12 13)
     = Failure SIGNATURE_INVALID"
  by (simp add: demo_simps demo_syn_def demo_syn_ack_def alice1_def)

text \<open>
  One response for each of the three results.
\<close>

theorem process_syn_ack_failure_state_witness:
  "fst (process_syn_ack demo_lib alice1 demo_syn_ack 30000007 11 12 13) = Failure TIMEOUT \<and>
   pending_sessions alice1 (sa_session_id demo_syn_ack) \<noteq> None \<and>
   pending_sessions (snd (process_syn_ack demo_lib alice1 demo_syn_ack 30000007 11 12 13))
     (sa_session_id demo_syn_ack) = None \<and>
   established_sessions (snd (process_syn_ack demo_lib alice1 demo_syn_ack 30000007 11 12 13))
     = established_sessions alice1 \<and>
   fst (process_syn_ack demo_lib alice demo_syn_ack 10 11 12 13) = Failure SCOPE_MISMATCH \<and>
   snd (process_syn_ack demo_lib alice demo_syn_ack 10 11 12 13) = alice \<and>
   fst (process_syn_ack demo_lib alice1 (demo_syn_ack\<lparr>sa_signature := None\<rparr>) 10 11 12 13)
     = Failure SIGNATURE_INVALID \<and>
   snd (process_syn_ack demo_lib alice1 (demo_syn_ack\<lparr>sa_signature := None\<rparr>) 10 11 12 13)
     = alice1"
proof -
  from process_syn_ack_failure_state [of demo_lib alice1 demo_syn_ack 30000007 11 12 13] demo_timeout
  have a: "pending_sessions alice1 (sa_session_id demo_syn_ack) \<noteq> None"
    "pending_sessions (snd (process_syn_ack demo_lib alice1 demo_syn_ack 30000007 11 12 13))
       (sa_session_id demo_syn_ack) = None"
    "snd (process_syn_ack demo_lib alice1 demo_syn_ack 30000007 11 12 13) =
       alice1\<lparr>pending_sessions := (pending_sessions alice1)(sa_session_id demo_syn_ack := None)\<rparr>"
    by blast+
  have a': "established_sessions (snd (process_syn_ack demo_lib alice1 demo_syn_ack 30000007 11 12 13))
     = established_sessions alice1"
    by (simp add: a(3))
  from process_syn_ack_failure_state [of demo_lib alice demo_syn_ack 10 11 12 13] demo_unknown_session
  have b: "snd (process_syn_ack demo_lib alice demo_syn_ack 10 11 12 13) = alice"
    by blast
  from process_syn_ack_failure_state
         [of demo_lib alice1 "demo_syn_ack\<lparr>sa_signature := None\<rparr>" 10 11 12 13] demo_unsigned
  have c: "snd (process_syn_ack demo_lib alice1 (demo_syn_ack\<lparr>sa_signature := None\<rparr>) 10 11 12 13)
     = alice1"
    by blast
  from a(1,2) a' b c demo_timeout demo_unknown_session demo_unsigned show ?thesis by blast
qed

text \<open>
  The two rejections of a response before the clock is read: an unknown
  \<^verbatim>\<open>session_id\<close> gives \<^verbatim>\<open>SCOPE_MISMATCH\<close>; a known one with a \<^verbatim>\<open>syn_signature\<close>
  that is not the stored offer's gives \<^verbatim>\<open>SIGNATURE_INVALID\<close> whenever the response's
  own \<^verbatim>\<open>signature\<close> is absent or ASCII, whether it verifies or not. A
  \<^verbatim>\<open>signature\<close> with a character outside ASCII never reaches that check:
  \<^verbatim>\<open>hmac.compare_digest\<close> raises \<^verbatim>\<open>TypeError\<close> and the exception leaves
  \<^verbatim>\<open>process_syn_ack\<close>.
\<close>

lemma process_syn_ack_unknown_session:
  "pending_sessions self (sa_session_id syn_ack) = None \<Longrightarrow>
   process_syn_ack lib self syn_ack t1 t2 t3 t4 = (Failure SCOPE_MISMATCH, self)"
  by (simp add: process_syn_ack_def)

lemma process_syn_ack_syn_signature_mismatch:
  assumes "pending_sessions self (sa_session_id syn_ack) = Some pend"
      and "sa_syn_signature syn_ack \<noteq> syn_signature (p_syn pend)"
      and "is_ascii (or_empty_str (sa_signature syn_ack))"
  shows "process_syn_ack lib self syn_ack t1 t2 t3 t4 = (Failure SIGNATURE_INVALID, self)"
proof (cases "verify_signature lib self (syn_ack_to_dict syn_ack) (sa_signature syn_ack)")
  case (Inl e)
  with assms(3) show ?thesis by (simp add: verify_signature_Inl_iff)
next
  case (Inr b)
  with assms(1,2) show ?thesis by (cases b) (simp_all add: process_syn_ack_def)
qed

lemma process_syn_ack_non_ascii_signature:
  assumes "pending_sessions self (sa_session_id syn_ack) = Some pend"
      and "\<not> is_ascii (or_empty_str (sa_signature syn_ack))"
  shows "process_syn_ack lib self syn_ack t1 t2 t3 t4 = (Raises TypeError, self)"
proof -
  have "verify_signature lib self (syn_ack_to_dict syn_ack) (sa_signature syn_ack) = Inl TypeError"
    using assms(2) by (simp add: verify_signature_Inl_iff)
  with assms(1) show ?thesis by (simp add: process_syn_ack_def)
qed

text \<open>
  Claim C6 says that a response with a known \<^verbatim>\<open>session_id\<close> and a \<^verbatim>\<open>syn_signature\<close>
  that is not the stored offer's gives \<^verbatim>\<open>SIGNATURE_INVALID\<close> whatever its own
  \<^verbatim>\<open>signature\<close> is. The response \<^verbatim>\<open>non_ascii_syn_ack\<close> for Alice's pending offer is
  such a response, its \<^verbatim>\<open>signature\<close> is the string \<^verbatim>\<open>"\xe9"\<close>, and the call
  raises \<^verbatim>\<open>TypeError\<close> instead of returning.
\<close>

theorem process_syn_ack_non_ascii_raises:
  "pending_sessions alice1 (sa_session_id non_ascii_syn_ack) \<noteq> None \<and>
   sa_syn_signature non_ascii_syn_ack \<noteq> syn_signature demo_syn \<and>
   process_syn_ack demo_lib alice1 non_ascii_syn_ack 10 11 12 13 = (Raises TypeError, alice1)"
proof -
  have p: "pending_sessions alice1 (sa_session_id non_ascii_syn_ack) =
     Some \<lparr>p_state = SYN_SENT, p_syn = demo_syn, p_syn_ack = None, p_created_at = Datetime 6 None\<rparr>"
    by (simp add: alice1_def non_ascii_syn_ack_def demo_syn_ack_def)
  have n: "\<not> is_ascii (or_empty_str (sa_signature non_ascii_syn_ack))"
    by (simp add: non_ascii_syn_ack_def is_ascii_def or_empty_str_def)
  have "sa_syn_signature non_ascii_syn_ack \<noteq> syn_signature demo_syn"
    by (simp add: non_ascii_syn_ack_def demo_syn_def)
  with p process_syn_ack_non_ascii_signature [OF p n] show ?thesis by simp
qed

text \<open>
  Claim C7. For a pending offer with \<^verbatim>\<open>ttl_seconds = 0\<close>, a response with a known
  \<^verbatim>\<open>session_id\<close> and valid signatures that is processed when the clock reads more
  than at the entry's creation gives \<^verbatim>\<open>TIMEOUT\<close> (and the entry is removed).
\<close>

theorem zero_ttl_response_times_out:
  assumes "pending_sessions self (sa_session_id syn_ack) = Some pend"
      and "syn_ttl_seconds (p_syn pend) = 0"
      and "verify_signature lib self (syn_ack_to_dict syn_ack) (sa_signature syn_ack) = Inr True"
      and "sa_syn_signature syn_ack = syn_signature (p_syn pend)"
      and "wall (p_created_at pend) < t_check"
  shows "process_syn_ack lib self syn_ack t_check t_stamp t_est t_exp =
           (Failure TIMEOUT,
            self\<lparr>pending_sessions := (pending_sessions self)(sa_session_id syn_ack := None)\<rparr>)"
  using assms by (simp add: process_syn_ack_def is_timeout_def Let_def)

lemma alice_ttl0_facts:
  "pending_sessions alice_ttl0 (sa_session_id demo_syn_ack) =
     Some \<lparr>p_state = SYN_SENT, p_syn = demo_syn\<lparr>syn_ttl_seconds := 0\<rparr>, p_syn_ack = None,
           p_created_at = Datetime 6 None\<rparr>"
  "syn_ttl_seconds (p_syn \<lparr>p_state = SYN_SENT, p_syn = demo_syn\<lparr>syn_ttl_seconds := 0\<rparr>,
           p_syn_ack = None, p_created_at = Datetime 6 None\<rparr>) = 0"
  "verify_signature demo_lib alice_ttl0 (syn_ack_to_dict demo_syn_ack) (sa_signature demo_syn_ack)
     = Inr True"
  "sa_syn_signature demo_syn_ack =
     syn_signature (p_syn \<lparr>p_state = SYN_SENT, p_syn = demo_syn\<lparr>syn_ttl_seconds := 0\<rparr>,
           p_syn_ack = None, p_created_at = Datetime 6 None\<rparr>)"
  "wall (p_created_at \<lparr>p_state = SYN_SENT, p_syn = demo_syn\<lparr>syn_ttl_seconds := 0\<rparr>,
           p_syn_ack = None, p_created_at = Datetime 6 None\<rparr>) < 7"
  by (simp_all add: demo_simps alice_ttl0_def demo_syn_ack_def demo_syn_def)

theorem zero_ttl_response_times_out_witness:
  "pending_sessions alice_ttl0 (sa_session_id demo_syn_ack) =
     Some \<lparr>p_state = SYN_SENT, p_syn = demo_syn\<lparr>syn_ttl_seconds := 0\<rparr>, p_syn_ack = None,
           p_created_at = Datetime 6 None\<rparr> \<and>
   verify_signature demo_lib alice_ttl0 (syn_ack_to_dict demo_syn_ack) (sa_signature demo_syn_ack)
     = Inr True \<and>
   sa_syn_signature demo_syn_ack = syn_signature demo_syn \<and>
   process_syn_ack demo_lib alice_ttl0 demo_syn_ack 7 8 9 10 =
     (Failure TIMEOUT,
      alice_ttl0\<lparr>pending_sessions :=
        (pending_sessions alice_ttl0)(sa_session_id demo_syn_ack := None)\<rparr>)"
  using zero_ttl_response_times_out [OF alice_ttl0_facts, of 8 9 10] alice_ttl0_facts
  by simp

subsection \<open>The registry\<close>

text \<open>
  Claim C8. \<^verbatim>\<open>is_session_valid\<close> is true exactly when the registry has a session
  under the id, its \<^verbatim>\<open>expires_at\<close> is read back as an instant, and the clock is
  strictly before that instant; the manager is returned as it was given.
\<close>

theorem is_session_valid_iff:
  "is_session_valid lib self utcnow sid =
     ((\<exists>s expires. established_sessions self sid = Some s \<and>
                   fromisoformat lib (replace_Z (expires_at s)) = Some expires \<and>
                   utcnow < wall expires),
      self)"
  by (auto simp: is_session_valid_def split: option.splits)

text \<open>
  The sessions of the run are valid from their establishment until one hour later.
\<close>

lemma demo_session_valid:
  "is_session_valid demo_lib bob2 16 ''sid-0001-abcd'' = (True, bob2)"
  "is_session_valid demo_lib bob2 3600000014 ''sid-0001-abcd'' = (True, bob2)"
  "is_session_valid demo_lib bob2 3600000015 ''sid-0001-abcd'' = (False, bob2)"
  "is_session_valid demo_lib alice2 16 ''sid-0001-abcd'' = (True, alice2)"
  "is_session_valid demo_lib alice2 3600000013 ''sid-0001-abcd'' = (False, alice2)"
  "is_session_valid demo_lib bob1 16 ''sid-0001-abcd'' = (False, bob1)"
  by (simp_all add: is_session_valid_def bob2_def bob1_def alice2_def bob_def alice_def init_def
        bob_session_def alice_session_def demo_lib_def replace_Z_def)

subsection \<open>The offer\<close>

text \<open>
  Claim C9. For an offer whose \<^verbatim>\<open>timestamp\<close> does not parse and whose signature
  verifies, \<^verbatim>\<open>process_syn\<close> with \<^verbatim>\<open>accept=True\<close> returns a response, and with any
  \<^verbatim>\<open>accept\<close> it never returns \<^verbatim>\<open>TIMEOUT\<close>, whatever \<^verbatim>\<open>ttl_seconds\<close> and the
  clock are.
\<close>

theorem unparsed_timestamp_skips_expiry:
  assumes "fromisoformat lib (replace_Z (syn_timestamp syn)) = None"
      and "verify_signature lib self (syn_to_dict syn) (syn_signature syn) = Inr True"
  shows "(\<exists>syn_ack self'.
            process_syn lib self syn True modified uuid t_check t_stamp t_created
              = (Success syn_ack, self')) \<and>
         fst (process_syn lib self syn accept modified uuid t_check t_stamp t_created)
           \<noteq> Failure TIMEOUT"
  using assms by (simp add: process_syn_def Let_def)

lemma garbage_syn_facts:
  "fromisoformat demo_lib (replace_Z (syn_timestamp garbage_syn)) = None"
  "verify_signature demo_lib bob (syn_to_dict garbage_syn) (syn_signature garbage_syn) = Inr True"
  by (simp_all add: demo_simps garbage_syn_def demo_syn_def)

theorem unparsed_timestamp_skips_expiry_witness:
  "fromisoformat demo_lib (replace_Z (syn_timestamp garbage_syn)) = None \<and>
   verify_signature demo_lib bob (syn_to_dict garbage_syn) (syn_signature garbage_syn) = Inr True \<and>
   syn_ttl_seconds garbage_syn = 0 \<and>
   (\<exists>syn_ack self'.
      process_syn demo_lib bob garbage_syn True None ''token-9'' 999999999999 8 9
        = (Success syn_ack, self')) \<and>
   fst (process_syn demo_lib bob garbage_syn True None ''token-9'' 999999999999 8 9)
     \<noteq> Failure TIMEOUT"
proof -
  have "syn_ttl_seconds garbage_syn = 0" by (simp add: garbage_syn_def)
  with unparsed_timestamp_skips_expiry
         [OF garbage_syn_facts, of None "''token-9''" 999999999999 8 9 True]
       garbage_syn_facts
  show ?thesis by simp
qed

subsection \<open>Whose key verifies\<close>

text \<open>
  A key shorter than the block and the same key followed by a NUL byte are padded to
  the same block, so they sign alike, for every hash function; and a manager with the
  longer key does what the manager with the shorter key does.
\<close>

lemma hmac_new_nul_key:
  assumes "length key < 64"
  shows "hmac_new lib (key @ [CHR 0x00]) msg = hmac_new lib key msg"
proof -
  have "64 - length key = Suc (64 - length (key @ [CHR 0x00]))"
    using assms by simp
  then have "(key @ [CHR 0x00]) @ replicate (64 - length (key @ [CHR 0x00])) (CHR 0x00)
           = key @ replicate (64 - length key) (CHR 0x00)"
    by simp
  moreover have "\<not> length (key @ [CHR 0x00]) > 64" "\<not> length key > 64"
    using assms by simp_all
  ultimately show ?thesis
    unfolding hmac_new_def Let_def by presburger
qed

lemma sign_nul_key:
  assumes "length (secret_key self) < 64"
  shows "sign lib (self\<lparr>secret_key := secret_key self @ [CHR 0x00]\<rparr>) data = sign lib self data"
  using assms by (simp add: sign_def hmac_new_nul_key)

lemma verify_signature_nul_key:
  assumes "length (secret_key self) < 64"
  shows "verify_signature lib (self\<lparr>secret_key := secret_key self @ [CHR 0x00]\<rparr>) data sg
           = verify_signature lib self data sg"
  using assms by (simp add: verify_signature_def sign_nul_key)

lemma process_syn_nul_key:
  assumes "length (secret_key self) < 64"
  shows "process_syn lib (self\<lparr>secret_key := secret_key self @ [CHR 0x00]\<rparr>) syn accept mc uuid t1 t2 t3
           = apsnd (\<lambda>s. s\<lparr>secret_key := secret_key self @ [CHR 0x00]\<rparr>)
               (process_syn lib self syn accept mc uuid t1 t2 t3)"
  by (simp add: process_syn_def Let_def verify_signature_nul_key[OF assms] sign_nul_key[OF assms]
           split: sum.split bool.split)

lemma process_ack_nul_key:
  assumes "length (secret_key self) < 64"
  shows "process_ack lib (self\<lparr>secret_key := secret_key self @ [CHR 0x00]\<rparr>) ack t1 t2
           = apsnd (\<lambda>s. s\<lparr>secret_key := secret_key self @ [CHR 0x00]\<rparr>)
               (process_ack lib self ack t1 t2)"
proof (cases "pending_sessions self (ack_session_id ack)")
  case None
  then show ?thesis by (simp add: process_ack_def)
next
  case (Some p)
  note v = verify_signature_nul_key [OF assms]
  show ?thesis
  proof (cases "verify_signature lib self (ack_to_dict ack) (ack_signature ack)")
    case (Inl e)
    with Some show ?thesis by (simp add: process_ack_def v)
  next
    case (Inr b)
    show ?thesis
    proof (cases "p_syn_ack p")
      case None
      with Some Inr show ?thesis by (cases b) (simp_all add: process_ack_def v)
    next
      case (Some sa)
      with \<open>pending_sessions self (ack_session_id ack) = Some p\<close> Inr show ?thesis
        by (cases b) (simp_all add: process_ack_def Let_def v)
    qed
  qed
qed

lemma sign_cong_unsigned:
  assumes "\<And>k. k \<noteq> ''signature'' \<Longrightarrow> d k = d' k"
  shows "sign lib self d = sign lib self d'"
proof -
  have "(\<lambda>k. if k \<noteq> ''signature'' then d k else None)
      = (\<lambda>k. if k \<noteq> ''signature'' then d' k else None)"
    using assms by auto
  then show ?thesis by (simp add: sign_def)
qed

text \<open>
  Claim C10, as the code has it. Every operation verifies under the key of the manager
  that runs it: \<^verbatim>\<open>process_syn\<close> gets past its signature check exactly when the
  offer's signature is the signature of the offer under the responder's key, and a
  response or confirmation that is accepted carries the signature under the accepting
  manager's key. So the offer that \<^verbatim>\<open>create_syn\<close> makes on \<open>A\<close> gets past the
  check of \<open>B\<close> exactly when both keys sign it alike. Equal keys do; they are not the
  only ones.
\<close>

theorem signature_checked_under_receivers_key:
  "((fst (process_syn lib B syn accept mc token t1 t2 t3) \<noteq> Failure SIGNATURE_INVALID \<and>
     (\<forall>e. fst (process_syn lib B syn accept mc token t1 t2 t3) \<noteq> Raises e))
      \<longleftrightarrow> or_empty_str (syn_signature syn) = sign lib B (syn_to_dict syn)) \<and>
   (process_syn_ack lib A1 syn_ack t4 t5 t6 t7 = (Success ack, A2) \<longrightarrow>
      or_empty_str (sa_signature syn_ack) = sign lib A1 (syn_ack_to_dict syn_ack)) \<and>
   (process_ack lib B1 ack' t8 t9 = (Success session, B2) \<longrightarrow>
      or_empty_str (ack_signature ack') = sign lib B1 (ack_to_dict ack')) \<and>
   ((fst (process_syn lib B (fst (create_syn lib A uuid t10 t11 scope boundary cons))
            accept mc token t1 t2 t3) \<noteq> Failure SIGNATURE_INVALID \<and>
     (\<forall>e. fst (process_syn lib B (fst (create_syn lib A uuid t10 t11 scope boundary cons))
                 accept mc token t1 t2 t3) \<noteq> Raises e))
      \<longleftrightarrow> sign lib A (syn_to_dict (fst (create_syn lib A uuid t10 t11 scope boundary cons)))
          = sign lib B (syn_to_dict (fst (create_syn lib A uuid t10 t11 scope boundary cons)))) \<and>
   (secret_key A = secret_key B \<longrightarrow>
      sign lib A (syn_to_dict (fst (create_syn lib A uuid t10 t11 scope boundary cons)))
        = sign lib B (syn_to_dict (fst (create_syn lib A uuid t10 t11 scope boundary cons)))) \<and>
   (length (secret_key A) < 64 \<longrightarrow>
      sign lib (A\<lparr>secret_key := secret_key A @ [CHR 0x00]\<rparr>) data = sign lib A data)"
proof -
  have accept_iff: "(fst (process_syn lib B s accept mc token t1 t2 t3) \<noteq> Failure SIGNATURE_INVALID \<and>
     (\<forall>e. fst (process_syn lib B s accept mc token t1 t2 t3) \<noteq> Raises e))
      \<longleftrightarrow> or_empty_str (syn_signature s) = sign lib B (syn_to_dict s)" for s
  proof (cases "verify_signature lib B (syn_to_dict s) (syn_signature s)")
    case (Inl e)
    then have "fst (process_syn lib B s accept mc token t1 t2 t3) = Raises e"
      by (simp add: process_syn_def)
    moreover from Inl have "or_empty_str (syn_signature s) \<noteq> sign lib B (syn_to_dict s)"
      using verify_signature_True_iff [of lib B "syn_to_dict s" "syn_signature s"] by simp
    ultimately show ?thesis by simp
  next
    case (Inr b)
    show ?thesis
    proof (cases b)
      case True
      with Inr have v: "verify_signature lib B (syn_to_dict s) (syn_signature s) = Inr True" by simp
      then have "or_empty_str (syn_signature s) = sign lib B (syn_to_dict s)"
        by (simp add: verify_signature_True_iff)
      moreover from v have "fst (process_syn lib B s accept mc token t1 t2 t3) \<noteq> Failure SIGNATURE_INVALID"
        "\<forall>e. fst (process_syn lib B s accept mc token t1 t2 t3) \<noteq> Raises e"
        by (simp_all add: process_syn_def Let_def)
      ultimately show ?thesis by simp
    next
      case False
      with Inr have v: "verify_signature lib B (syn_to_dict s) (syn_signature s) = Inr False" by simp
      then have "fst (process_syn lib B s accept mc token t1 t2 t3) = Failure SIGNATURE_INVALID"
        by (simp add: process_syn_def)
      moreover from v have "or_empty_str (syn_signature s) \<noteq> sign lib B (syn_to_dict s)"
        using verify_signature_True_iff [of lib B "syn_to_dict s" "syn_signature s"] by simp
      ultimately show ?thesis by simp
    qed
  qed
  have made: "or_empty_str (syn_signature (fst (create_syn lib A uuid t10 t11 scope boundary cons)))
      = sign lib A (syn_to_dict (fst (create_syn lib A uuid t10 t11 scope boundary cons)))"
    apply (simp add: create_syn_def Let_def or_empty_str_def)
    apply (rule sign_cong_unsigned)
    apply (simp add: syn_to_dict_def)
    done
  have c2: "process_syn_ack lib A1 syn_ack t4 t5 t6 t7 = (Success ack, A2) \<longrightarrow>
      or_empty_str (sa_signature syn_ack) = sign lib A1 (syn_ack_to_dict syn_ack)"
    by (auto simp: process_syn_ack_def Let_def verify_signature_True_iff
             split: option.splits sum.splits bool.splits if_splits)
  have c3: "process_ack lib B1 ack' t8 t9 = (Success session, B2) \<longrightarrow>
      or_empty_str (ack_signature ack') = sign lib B1 (ack_to_dict ack')"
    by (auto simp: process_ack_def Let_def verify_signature_True_iff
             split: option.splits sum.splits bool.splits if_splits)
  have c5: "secret_key A = secret_key B \<longrightarrow>
      sign lib A (syn_to_dict (fst (create_syn lib A uuid t10 t11 scope boundary cons)))
        = sign lib B (syn_to_dict (fst (create_syn lib A uuid t10 t11 scope boundary cons)))"
    by (simp add: sign_def)
  have c6: "length (secret_key A) < 64 \<longrightarrow>
      sign lib (A\<lparr>secret_key := secret_key A @ [CHR 0x00]\<rparr>) data = sign lib A data"
    by (simp add: sign_nul_key)
  show ?thesis
    using accept_iff [of syn]
      accept_iff [of "fst (create_syn lib A uuid t10 t11 scope boundary cons)"] made c2 c3 c5 c6
    by presburger
qed

lemma demo_keys_differ: "secret_key alice \<noteq> secret_key bob_nul"
  by (simp add: alice_def bob_nul_def init_def utf8_encode_def)

lemma bob_nul_eq: "bob_nul = bob\<lparr>secret_key := secret_key bob @ [CHR 0x00]\<rparr>"
  by (simp add: bob_nul_def bob_def init_def utf8_encode_def)

lemma bob_key_short: "length (secret_key bob) < 64"
  by (simp add: bob_def init_def utf8_encode_def)

lemma demo_nul_step2:
  "process_syn demo_lib bob_nul demo_syn True (Some [''max_x'' \<mapsto> JInt 500]) ''token-1'' 7 8 9
     = (Success demo_syn_ack, bob_nul1)"
  using process_syn_nul_key [OF bob_key_short, of demo_lib demo_syn True
      "Some [''max_x'' \<mapsto> JInt 500]" "''token-1''" 7 8 9]
  by (simp add: demo_step2 bob_nul_eq bob_nul1_def bob1_def)

lemma demo_nul_step4:
  "process_ack demo_lib bob_nul1 demo_ack 14 15 = (Success bob_session, bob_nul2)"
proof -
  have "length (secret_key bob1) < 64" using bob_key_short by (simp add: bob1_def)
  from process_ack_nul_key [OF this, of demo_lib demo_ack 14 15] demo_step4
  show ?thesis
    by (simp add: bob_nul_eq bob_nul1_def bob_nul2_def bob1_def bob2_def bob_def init_def)
qed

text \<open>
  The claim as it was stated fails: Alice holds \<^verbatim>\<open>k1\<close>, this responder holds
  \<^verbatim>\<open>k1\<close> followed by a NUL character, and the handshake completes.
\<close>

theorem unequal_keys_complete_handshake:
  "secret_key alice \<noteq> secret_key bob_nul \<and>
   create_syn demo_lib alice ''sid-0001-abcd'' 5 6 ''read-profile'' Map.empty
     (Some [''max_x'' \<mapsto> JInt 1000]) = (demo_syn, alice1) \<and>
   process_syn demo_lib bob_nul demo_syn True (Some [''max_x'' \<mapsto> JInt 500]) ''token-1'' 7 8 9
     = (Success demo_syn_ack, bob_nul1) \<and>
   process_syn_ack demo_lib alice1 demo_syn_ack 10 11 12 13 = (Success demo_ack, alice2) \<and>
   process_ack demo_lib bob_nul1 demo_ack 14 15 = (Success bob_session, bob_nul2)"
  using demo_keys_differ demo_step1 demo_nul_step2 demo_step3 demo_nul_step4 by simp

lemma demo_made: "fst (create_syn demo_lib alice ''sid-0001-abcd'' 5 6 ''read-profile'' Map.empty
     (Some [''max_x'' \<mapsto> JInt 1000])) = demo_syn"
  by (simp add: demo_step1)

theorem signature_checked_under_receivers_key_witness:
  "secret_key alice = secret_key bob \<and>
   process_syn_ack demo_lib alice1 demo_syn_ack 10 11 12 13 = (Success demo_ack, alice2) \<and>
   process_ack demo_lib bob1 demo_ack 14 15 = (Success bob_session, bob2) \<and>
   or_empty_str (sa_signature demo_syn_ack) = sign demo_lib alice1 (syn_ack_to_dict demo_syn_ack) \<and>
   or_empty_str (ack_signature demo_ack) = sign demo_lib bob1 (ack_to_dict demo_ack) \<and>
   sign demo_lib alice (syn_to_dict demo_syn) = sign demo_lib bob (syn_to_dict demo_syn) \<and>
   fst (process_syn demo_lib bob demo_syn True (Some [''max_x'' \<mapsto> JInt 500]) ''token-1'' 7 8 9)
     \<noteq> Failure SIGNATURE_INVALID \<and>
   length (secret_key alice) < 64 \<and>
   sign demo_lib (alice\<lparr>secret_key := secret_key alice @ [CHR 0x00]\<rparr>) (syn_to_dict demo_syn)
     = sign demo_lib alice (syn_to_dict demo_syn)"
proof -
  have k: "secret_key alice = secret_key bob"
    by (simp add: alice_def bob_def init_def)
  note t = signature_checked_under_receivers_key
    [where lib = demo_lib and B = bob and syn = demo_syn and accept = True
       and mc = "Some [''max_x'' \<mapsto> JInt 500]" and token = "''token-1''"
       and ?t1.0 = 7 and ?t2.0 = 8 and ?t3.0 = 9
       and ?A1.0 = alice1 and syn_ack = demo_syn_ack
       and ?t4.0 = 10 and ?t5.0 = 11 and ?t6.0 = 12 and ?t7.0 = 13
       and ack = demo_ack and ?A2.0 = alice2
       and ?B1.0 = bob1 and ack' = demo_ack and ?t8.0 = 14 and ?t9.0 = 15
       and session = bob_session and ?B2.0 = bob2
       and A = alice and uuid = "''sid-0001-abcd''" and ?t10.0 = 5 and ?t11.0 = 6
       and scope = "''read-profile''" and boundary = Map.empty
       and cons = "Some [''max_x'' \<mapsto> JInt 1000]" and data = "syn_to_dict demo_syn",
     unfolded demo_made]
  from t demo_step3 have a: "or_empty_str (sa_signature demo_syn_ack)
      = sign demo_lib alice1 (syn_ack_to_dict demo_syn_ack)"
    by blast
  from t demo_step4 have b: "or_empty_str (ack_signature demo_ack)
      = sign demo_lib bob1 (ack_to_dict demo_ack)"
    by blast
  from t k have c: "sign demo_lib alice (syn_to_dict demo_syn) = sign demo_lib bob (syn_to_dict demo_syn)"
    by blast
  from t c have d: "fst (process_syn demo_lib bob demo_syn True (Some [''max_x'' \<mapsto> JInt 500])
      ''token-1'' 7 8 9) \<noteq> Failure SIGNATURE_INVALID"
    by blast
  have l: "length (secret_key alice) < 64"
    by (simp add: alice_def init_def utf8_encode_def)
  from t l have e: "sign demo_lib (alice\<lparr>secret_key := secret_key alice @ [CHR 0x00]\<rparr>)
      (syn_to_dict demo_syn) = sign demo_lib alice (syn_to_dict demo_syn)"
    by blast
  from k demo_step3 demo_step4 a b c d l e show ?thesis by blast
qed

end
